theory Spec2Isabelle
  imports Main
begin

section \<open>Python values used by the bot\<close>

text \<open>
  A Python \<open>str\<close> is a sequence of Unicode code points; the message texts of the bot
  contain characters outside ASCII, so a text is a list of code points.
\<close>

type_synonym ustr = "nat list"

type_synonym path = ustr

definition ascii :: "string \<Rightarrow> ustr" where
  "ascii s = map of_char s"

text \<open>The characters for which \<open>str.isspace\<close> holds; \<open>str.strip()\<close> removes them.\<close>

definition is_space :: "nat \<Rightarrow> bool" where
  "is_space c \<longleftrightarrow>
     (9 \<le> c \<and> c \<le> 13) \<or> (28 \<le> c \<and> c \<le> 32) \<or> c = 133 \<or> c = 160 \<or> c = 5760 \<or>
     (8192 \<le> c \<and> c \<le> 8202) \<or> c = 8232 \<or> c = 8233 \<or> c = 8239 \<or> c = 8287 \<or> c = 12288"

definition py_strip :: "ustr \<Rightarrow> ustr" where
  "py_strip s = rev (dropWhile is_space (rev (dropWhile is_space s)))"

text \<open>\<open>str(n)\<close> for an integer: decimal digits, a minus sign for negatives.\<close>

fun str_nat :: "nat \<Rightarrow> ustr" where
  "str_nat n = (if n < 10 then [48 + n] else str_nat (n div 10) @ [48 + n mod 10])"

declare str_nat.simps [simp del]

definition str_int :: "int \<Rightarrow> ustr" where
  "str_int i = (if i < 0 then 45 # str_nat (nat (- i)) else str_nat (nat i))"

text \<open>
  \<open>file_size / 1024 / 1024\<close> is a true division of integers followed by a division of
  floats. The first gives the binary64 number nearest to the quotient; dividing by a
  power of two only changes the exponent, so the result is \<open>round53 file_size / 2 ^ 20\<close>
  exactly, where \<open>round53\<close> keeps 53 significant bits, ties to even (the identity below
  \<open>2 ^ 53\<close>). The format \<open>.2f\<close> prints the decimal with two fraction digits nearest to
  that exact value, ties to even. Everything is computed on integers here.
\<close>

fun bit_length :: "nat \<Rightarrow> nat" where
  "bit_length n = (if n = 0 then 0 else Suc (bit_length (n div 2)))"

declare bit_length.simps [simp del]

definition round53 :: "nat \<Rightarrow> nat" where
  "round53 n =
     (if n < 2 ^ 53 then n
      else let e = bit_length n - 53; q = n div 2 ^ e; r = n mod 2 ^ e
           in (if 2 ^ e < 2 * r \<or> (2 * r = 2 ^ e \<and> odd q) then q + 1 else q) * 2 ^ e)"

definition mib_cents :: "nat \<Rightarrow> nat" where
  "mib_cents n =
     (let x = round53 n * 100; q = x div 2 ^ 20; r = x mod 2 ^ 20
      in if 2 ^ 19 < r \<or> (r = 2 ^ 19 \<and> odd q) then q + 1 else q)"

definition fmt_mib_2f :: "nat \<Rightarrow> ustr" where
  "fmt_mib_2f n =
     (let c = mib_cents n
      in str_nat (c div 100) @ [46, 48 + c mod 100 div 10, 48 + c mod 10])"


section \<open>Telegram updates, library arguments, exceptions\<close>

text \<open>
  The exceptions the handler distinguishes: \<open>yt_dlp.DownloadError\<close> has a clause of its
  own, every other subclass of \<open>Exception\<close> falls into the second clause.
  \<open>AttributeError\<close> is what an attribute access on \<open>None\<close> raises,
  \<open>FileNotFoundError\<close> what \<open>os.path.getsize\<close>, \<open>open\<close> and \<open>os.remove\<close> raise on a
  missing file; \<open>OtherException\<close> stands for any other class (a Telegram or network
  error, say), told apart by a tag.
\<close>

datatype exn = DownloadError | AttributeError | FileNotFoundError | OtherException nat

text \<open>
  \<open>msg_from_user\<close> is the \<open>id\<close> of \<open>message.from_user\<close>, \<open>None\<close> when the message has no
  sender; \<open>message\<close> is \<open>None\<close> on updates that carry no new message (an edited message,
  a channel post).
\<close>

record tg_message =
  msg_text :: "ustr option"
  msg_from_user :: "int option"
  msg_chat_id :: int

record tg_update =
  message :: "tg_message option"

record ydl_opts =
  outtmpl :: ustr
  format :: ustr
  merge_output_format :: ustr
  quiet :: bool
  no_warnings :: bool
  nocheckcertificate :: bool
  http_chunk_size :: nat

text \<open>The metadata dictionary of the probe: \<open>title\<close> is \<open>None\<close> when the key is absent.\<close>

record info =
  title :: "ustr option"
  ext :: ustr

record send_document_args =
  chat_id :: int
  document :: path
  filename :: ustr
  caption :: ustr
  parse_mode :: ustr
  disable_content_type_detection :: bool

datatype log_msg =
    ProcessingError exn
  | UpdateCausedError "tg_update option" exn

text \<open>Every call that leaves the process is recorded, in order, when it is made.\<close>

datatype event =
    ReplyText ustr ustr
  | NewYoutubeDL ydl_opts
  | ExtractInfo ustr bool
  | Download "ustr list"
  | Remove path
  | SendDocument send_document_args
  | LogError log_msg

text \<open>The staging directory maps a path to the size of the file there.\<close>

record world =
  fs :: "path \<rightharpoonup> nat"
  trace :: "event list"

text \<open>
  What the libraries answer. \<open>validators.url\<close> is read through its truth value. A
  network call either succeeds or raises; a download may write files and then raise.
\<close>

record env =
  validators_url :: "ustr \<Rightarrow> bool"
  reply_text_raises :: "ustr \<Rightarrow> exn option"
  extract_info_result :: "ustr \<Rightarrow> exn + info"
  prepare_filename :: "ydl_opts \<Rightarrow> info \<Rightarrow> path"
  download_writes :: "ustr list \<Rightarrow> (path \<times> nat) list"
  download_raises :: "ustr list \<Rightarrow> exn option"
  send_document_raises :: "send_document_args \<Rightarrow> exn option"


section \<open>Statements with effects and exceptions\<close>

type_synonym 'a io = "world \<Rightarrow> (exn + 'a) \<times> world"

definition io_return :: "'a \<Rightarrow> 'a io" where
  "io_return a w = (Inr a, w)"

definition io_raise :: "exn \<Rightarrow> 'a io" where
  "io_raise e w = (Inl e, w)"

definition io_bind :: "'a io \<Rightarrow> ('a \<Rightarrow> 'b io) \<Rightarrow> 'b io" where
  "io_bind m f w = (case m w of (Inl e, w') \<Rightarrow> (Inl e, w') | (Inr a, w') \<Rightarrow> f a w')"

text \<open>\<open>try: m except ... as e: h e\<close>; an exception raised by the clause itself escapes.\<close>

definition io_try :: "'a io \<Rightarrow> (exn \<Rightarrow> 'a io) \<Rightarrow> 'a io" where
  "io_try m h w = (case m w of (Inl e, w') \<Rightarrow> h e w' | (Inr a, w') \<Rightarrow> (Inr a, w'))"

definition emit :: "event \<Rightarrow> unit io" where
  "emit ev w = (Inr (), w\<lparr>trace := trace w @ [ev]\<rparr>)"

definition raise_if :: "exn option \<Rightarrow> unit io" where
  "raise_if r = (case r of None \<Rightarrow> io_return () | Some e \<Rightarrow> io_raise e)"

text \<open>\<open>x.attr\<close> where \<open>x\<close> may be \<open>None\<close>.\<close>

definition attr :: "'a option \<Rightarrow> 'a io" where
  "attr x = (case x of None \<Rightarrow> io_raise AttributeError | Some a \<Rightarrow> io_return a)"

definition reply_text :: "env \<Rightarrow> ustr \<Rightarrow> ustr \<Rightarrow> unit io" where
  "reply_text env txt pm = io_bind (emit (ReplyText txt pm)) (\<lambda>_. raise_if (reply_text_raises env txt))"

definition send_document :: "env \<Rightarrow> send_document_args \<Rightarrow> unit io" where
  "send_document env a = io_bind (emit (SendDocument a)) (\<lambda>_. raise_if (send_document_raises env a))"

definition extract_info :: "env \<Rightarrow> ustr \<Rightarrow> bool \<Rightarrow> info io" where
  "extract_info env url dl =
     io_bind (emit (ExtractInfo url dl))
       (\<lambda>_. case extract_info_result env url of Inl e \<Rightarrow> io_raise e | Inr i \<Rightarrow> io_return i)"

definition write_files :: "(path \<times> nat) list \<Rightarrow> unit io" where
  "write_files ws w = (Inr (), w\<lparr>fs := foldl (\<lambda>m (p, n). m(p \<mapsto> n)) (fs w) ws\<rparr>)"

definition download :: "env \<Rightarrow> ustr list \<Rightarrow> unit io" where
  "download env urls =
     io_bind (emit (Download urls))
       (\<lambda>_. io_bind (write_files (download_writes env urls))
         (\<lambda>_. raise_if (download_raises env urls)))"

definition getsize :: "path \<Rightarrow> nat io" where
  "getsize p w = (case fs w p of None \<Rightarrow> (Inl FileNotFoundError, w) | Some n \<Rightarrow> (Inr n, w))"

definition open_rb :: "path \<Rightarrow> path io" where
  "open_rb p w = (case fs w p of None \<Rightarrow> (Inl FileNotFoundError, w) | Some n \<Rightarrow> (Inr p, w))"

definition remove :: "path \<Rightarrow> unit io" where
  "remove p =
     io_bind (emit (Remove p))
       (\<lambda>_ w. case fs w p of None \<Rightarrow> (Inl FileNotFoundError, w)
              | Some n \<Rightarrow> (Inr (), w\<lparr>fs := (fs w)(p := None)\<rparr>))"


section \<open>The bot\<close>

definition MAX_FILE_SIZE :: nat where
  "MAX_FILE_SIZE = 400 * 1024 * 1024"

definition DOWNLOAD_DIR :: ustr where
  "DOWNLOAD_DIR = ascii ''downloads''"

definition HTML :: ustr where
  "HTML = ascii ''HTML''"

definition invalid_url_text :: ustr where
  "invalid_url_text = [0x274C] @ ascii '' <b>Oops!</b> Send a valid URL! '' @ [0x1F615]"

definition downloading_text :: ustr where
  "downloading_text =
     [0x23F3] @ ascii '' <b>Downloading...</b> '' @ [0x1F320] @ ascii '' (Spinning up turbo mode!)''"

definition too_large_text :: "ustr \<Rightarrow> nat \<Rightarrow> ustr" where
  "too_large_text video_title file_size =
     [0x274C] @ ascii '' <b>Sorry!</b> '' @ [39] @ video_title @ [39] @ ascii '' is too large (''
     @ fmt_mib_2f file_size @ ascii '' MB). Max is 400MB! '' @ [0x1F61E]"

definition caption_text :: "ustr \<Rightarrow> ustr" where
  "caption_text video_title =
     [0x1F389] @ ascii '' <b>Here'' @ [0x2019] @ ascii ''s your file!</b> '' @ video_title
     @ ascii '' '' @ [0x1F680]"

definition cleanup_text :: ustr where
  "cleanup_text =
     [0x1F5D1, 0xFE0F] @ ascii '' <b>Cleanup complete!</b> File deleted from server. '' @ [0x1F31F]"

definition download_failed_text :: ustr where
  "download_failed_text =
     [0x274C] @ ascii '' <b>Uh-oh!</b> Download failed. URL might not work or is unsupported. ''
     @ [0x1F614] @ ascii '' Try again!''"

definition generic_error_text :: ustr where
  "generic_error_text =
     [0x274C] @ ascii '' <b>Oops!</b> Something went wrong. Try again later! '' @ [0x1F615]"

definition apology_text :: ustr where
  "apology_text =
     [0x274C] @ ascii '' <b>Yikes!</b> An error occurred. Please try again! '' @ [0x1F623]"

definition make_ydl_opts :: "int \<Rightarrow> ydl_opts" where
  "make_ydl_opts user_id =
     \<lparr> outtmpl = DOWNLOAD_DIR @ ascii ''/'' @ str_int user_id @ ascii ''_%(title)s.%(ext)s'',
       format = ascii ''bestvideo[filesize<400M][ext=mp4]+bestaudio[ext=m4a]/best[ext=mp4]/best'',
       merge_output_format = ascii ''mp4'',
       quiet = True,
       no_warnings = True,
       nocheckcertificate = True,
       http_chunk_size = 10485760 \<rparr>"

text \<open>\<open>info.get('title', 'video')\<close>\<close>

definition get_title :: "info \<Rightarrow> ustr" where
  "get_title i = (case title i of None \<Rightarrow> ascii ''video'' | Some t \<Rightarrow> t)"

text \<open>The body of the \<open>try\<close> statement of \<open>download_video\<close>.\<close>

definition try_block :: "env \<Rightarrow> ustr \<Rightarrow> int \<Rightarrow> int \<Rightarrow> unit io" where
  "try_block env url user_id chat =
     (let opts = make_ydl_opts user_id in
      io_bind (emit (NewYoutubeDL opts)) (\<lambda>_.
      io_bind (extract_info env url False) (\<lambda>i.
        let video_title = get_title i;
            output_path = prepare_filename env opts i in
        io_bind (download env [url]) (\<lambda>_.
        io_bind (getsize output_path) (\<lambda>file_size.
          if MAX_FILE_SIZE < file_size then
            io_bind (reply_text env (too_large_text video_title file_size) HTML) (\<lambda>_.
            remove output_path)
          else
            io_bind (open_rb output_path) (\<lambda>video_file.
            io_bind (send_document env
                       \<lparr> chat_id = chat,
                         document = video_file,
                         filename = video_title @ ascii ''.mp4'',
                         caption = caption_text video_title,
                         parse_mode = HTML,
                         disable_content_type_detection = True \<rparr>) (\<lambda>_.
            io_bind (remove output_path) (\<lambda>_.
            reply_text env cleanup_text HTML))))))))"

text \<open>The two \<open>except\<close> clauses, tried in the order of the source.\<close>

definition except_clauses :: "env \<Rightarrow> exn \<Rightarrow> unit io" where
  "except_clauses env e =
     (if e = DownloadError then reply_text env download_failed_text HTML
      else io_bind (emit (LogError (ProcessingError e))) (\<lambda>_.
           reply_text env generic_error_text HTML))"

definition download_video :: "env \<Rightarrow> tg_update \<Rightarrow> unit io" where
  "download_video env update =
     io_bind (attr (message update)) (\<lambda>msg.
     io_bind (attr (msg_text msg)) (\<lambda>raw.
       let url = py_strip raw in
       io_bind (attr (msg_from_user msg)) (\<lambda>user_id.
         let chat = msg_chat_id msg in
         if \<not> validators_url env url then reply_text env invalid_url_text HTML
         else
           io_bind (reply_text env downloading_text HTML) (\<lambda>_.
           io_try (try_block env url user_id chat) (except_clauses env)))))"

text \<open>\<open>if update and update.message\<close>: both objects are truthy when they are there.\<close>

definition has_message :: "tg_update option \<Rightarrow> bool" where
  "has_message u = (case u of None \<Rightarrow> False | Some upd \<Rightarrow> message upd \<noteq> None)"

definition error_handler :: "env \<Rightarrow> tg_update option \<Rightarrow> exn \<Rightarrow> unit io" where
  "error_handler env update err =
     io_bind (emit (LogError (UpdateCausedError update err))) (\<lambda>_.
     if has_message update then reply_text env apology_text HTML else io_return ())"


section \<open>Observing a run\<close>

text \<open>
  The calls made by a statement started in \<open>w\<close>, the way it ends (\<open>Inr\<close> for a normal
  return, \<open>Inl\<close> for an exception that leaves it) and the staging directory it leaves.
  An event says that the call was made; whether it raised is the answer of \<open>env\<close>.
\<close>

definition effects :: "'a io \<Rightarrow> world \<Rightarrow> event list" where
  "effects m w = drop (length (trace w)) (trace (snd (m w)))"

definition outcome :: "'a io \<Rightarrow> world \<Rightarrow> exn + 'a" where
  "outcome m w = fst (m w)"

definition files_after :: "'a io \<Rightarrow> world \<Rightarrow> (path \<rightharpoonup> nat)" where
  "files_after m w = fs (snd (m w))"

text \<open>\<open>precedes a b xs\<close>: \<open>a\<close> occurs in \<open>xs\<close> and \<open>b\<close> occurs after its first occurrence.\<close>

fun precedes :: "'a \<Rightarrow> 'a \<Rightarrow> 'a list \<Rightarrow> bool" where
  "precedes a b [] = False"
| "precedes a b (x # xs) = (if x = a then b \<in> set xs else precedes a b xs)"

text \<open>\<open>s.split(c)\<close>, to read the alternatives of a format selector.\<close>

fun split_on :: "'a \<Rightarrow> 'a list \<Rightarrow> 'a list list" where
  "split_on c [] = [] # []"
| "split_on c (x # xs) =
     (if x = c then [] # split_on c xs
      else (case split_on c xs of [] \<Rightarrow> [x] # [] | y # ys \<Rightarrow> (x # y) # ys))"

text \<open>The staging directory once \<open>ydl.download([url])\<close> has written its files.\<close>

definition staged_fs :: "env \<Rightarrow> ustr \<Rightarrow> world \<Rightarrow> (path \<rightharpoonup> nat)" where
  "staged_fs env url w = foldl (\<lambda>m (p, n). m(p \<mapsto> n)) (fs w) (download_writes env [url])"

definition staged_path :: "env \<Rightarrow> int \<Rightarrow> info \<Rightarrow> path" where
  "staged_path env uid i = prepare_filename env (make_ydl_opts uid) i"

definition reply_result :: "env \<Rightarrow> ustr \<Rightarrow> exn + unit" where
  "reply_result env txt = (case reply_text_raises env txt of None \<Rightarrow> Inr () | Some e \<Rightarrow> Inl e)"

text \<open>What the \<open>except\<close> clause chosen for \<open>e\<close> sends and logs.\<close>

definition except_text :: "exn \<Rightarrow> ustr" where
  "except_text e = (if e = DownloadError then download_failed_text else generic_error_text)"

definition except_events :: "exn \<Rightarrow> event list" where
  "except_events e =
     (if e = DownloadError then [ReplyText download_failed_text HTML]
      else [LogError (ProcessingError e), ReplyText generic_error_text HTML])"

text \<open>The keyword arguments of the \<open>send_document\<close> call.\<close>

definition document_args :: "int \<Rightarrow> path \<Rightarrow> ustr \<Rightarrow> send_document_args" where
  "document_args chat p video_title =
     \<lparr> chat_id = chat, document = p, filename = video_title @ ascii ''.mp4'',
       caption = caption_text video_title, parse_mode = HTML,
       disable_content_type_detection = True \<rparr>"

text \<open>
  How far a run gets. \<open>text_message\<close>: the update carries a message with a text and a
  sender. \<open>download_started\<close>: the stripped text passes validation and the progress
  notice goes out. \<open>measured\<close>: probe and download succeed and \<open>os.path.getsize\<close> returns
  \<open>n\<close> for the predicted output path.
\<close>

definition text_message :: "tg_update \<Rightarrow> tg_message \<Rightarrow> ustr \<Rightarrow> int \<Rightarrow> bool" where
  "text_message update msg raw uid \<longleftrightarrow>
     message update = Some msg \<and> msg_text msg = Some raw \<and> msg_from_user msg = Some uid"

definition download_started :: "env \<Rightarrow> tg_update \<Rightarrow> tg_message \<Rightarrow> ustr \<Rightarrow> int \<Rightarrow> bool" where
  "download_started env update msg raw uid \<longleftrightarrow>
     text_message update msg raw uid \<and> validators_url env (py_strip raw) \<and>
     reply_text_raises env downloading_text = None"

definition measured ::
  "env \<Rightarrow> tg_update \<Rightarrow> world \<Rightarrow> tg_message \<Rightarrow> ustr \<Rightarrow> int \<Rightarrow> info \<Rightarrow> nat \<Rightarrow> bool" where
  "measured env update w msg raw uid i n \<longleftrightarrow>
     download_started env update msg raw uid \<and>
     extract_info_result env (py_strip raw) = Inr i \<and>
     download_raises env [py_strip raw] = None \<and>
     staged_fs env (py_strip raw) w (staged_path env uid i) = Some n"

definition stage_events :: "ustr \<Rightarrow> int \<Rightarrow> event list" where
  "stage_events url uid =
     [ReplyText downloading_text HTML, NewYoutubeDL (make_ydl_opts uid), ExtractInfo url False,
      Download [url]]"


section \<open>A concrete request\<close>

definition demo_url :: ustr where
  "demo_url = ascii ''https://example.com/v''"

definition demo_raw :: ustr where
  "demo_raw = [32] @ demo_url @ [10]"

definition demo_info :: info where
  "demo_info = \<lparr> title = Some (ascii ''clip''), ext = ascii ''mp4'' \<rparr>"

definition demo_path :: path where
  "demo_path = ascii ''downloads/7_clip.mp4''"

definition demo_message :: tg_message where
  "demo_message = \<lparr> msg_text = Some demo_raw, msg_from_user = Some 7, msg_chat_id = 70 \<rparr>"

definition demo_update :: tg_update where
  "demo_update = \<lparr> message = Some demo_message \<rparr>"

definition demo_world :: world where
  "demo_world = \<lparr> fs = Map.empty, trace = [] \<rparr>"

text \<open>Every call succeeds and the download writes a file of \<open>n\<close> bytes.\<close>

definition demo_env :: "nat \<Rightarrow> env" where
  "demo_env n =
     \<lparr> validators_url = (\<lambda>u. u = demo_url),
       reply_text_raises = (\<lambda>t. None),
       extract_info_result = (\<lambda>u. if u = demo_url then Inr demo_info else Inl DownloadError),
       prepare_filename = (\<lambda>opts i. demo_path),
       download_writes = (\<lambda>us. [(demo_path, n)]),
       download_raises = (\<lambda>us. None),
       send_document_raises = (\<lambda>a. None) \<rparr>"

definition demo_big :: nat where
  "demo_big = 450 * 1024 * 1024"

text \<open>As \<open>demo_env demo_big\<close>, but Telegram refuses the too-large notice.\<close>

definition flaky_env :: env where
  "flaky_env = (demo_env demo_big)
     \<lparr> reply_text_raises :=
         (\<lambda>t. if t = too_large_text (ascii ''clip'') demo_big then Some (OtherException 400)
              else None) \<rparr>"

text \<open>A probe result without a title.\<close>

definition untitled_info :: info where
  "untitled_info = \<lparr> title = None, ext = ascii ''mp4'' \<rparr>"

definition untitled_env :: "nat \<Rightarrow> env" where
  "untitled_env n = (demo_env n) \<lparr> extract_info_result := (\<lambda>u. Inr untitled_info) \<rparr>"

text \<open>A message whose text is not a URL.\<close>

definition invalid_update :: tg_update where
  "invalid_update =
     \<lparr> message = Some \<lparr> msg_text = Some (ascii ''hello there''), msg_from_user = Some 7,
                         msg_chat_id = 70 \<rparr> \<rparr>"

definition demo_small :: nat where
  "demo_small = 10 * 1024 * 1024"

text \<open>A file under the ceiling whose upload Telegram refuses.\<close>

definition upload_fails_env :: env where
  "upload_fails_env = (demo_env demo_small) \<lparr> send_document_raises := (\<lambda>a. Some (OtherException 502)) \<rparr>"

text \<open>The probe fails with the library's download error.\<close>

definition unsupported_env :: env where
  "unsupported_env = (demo_env 0) \<lparr> extract_info_result := (\<lambda>u. Inl DownloadError) \<rparr>"

text \<open>As \<open>unsupported_env\<close>, but the download-failed notice raises as well.\<close>

definition notice_fails_env :: env where
  "notice_fails_env = unsupported_env
     \<lparr> reply_text_raises :=
         (\<lambda>t. if t = download_failed_text then Some (OtherException 400) else None) \<rparr>"

text \<open>The download returns without having written the predicted file.\<close>

definition nothing_written_env :: env where
  "nothing_written_env = (demo_env 0) \<lparr> download_writes := (\<lambda>us. []) \<rparr>"

text \<open>An update without a new message (an edited message).\<close>

definition edited_update :: tg_update where
  "edited_update = \<lparr> message = None \<rparr>"

text \<open>The state in which the \<open>try\<close> statement starts: the progress notice has gone out.\<close>

definition started_world :: "world \<Rightarrow> world" where
  "started_world w = w\<lparr>trace := trace w @ [ReplyText downloading_text HTML]\<rparr>"


section \<open>Runs of the handler, path by path\<close>

lemmas io_defs = io_bind_def io_try_def attr_def emit_def raise_if_def io_return_def io_raise_def

lemma reply_text_run:
  "reply_text env txt pm w = (reply_result env txt, w\<lparr>trace := trace w @ [ReplyText txt pm]\<rparr>)"
  by (simp add: reply_text_def reply_result_def io_defs split: option.splits)

lemma except_clauses_run:
  "except_clauses env e w = (reply_result env (except_text e), w\<lparr>trace := trace w @ except_events e\<rparr>)"
  by (simp add: except_clauses_def except_events_def except_text_def reply_text_run io_defs)

lemma download_video_invalid:
  assumes "message update = Some msg" "msg_text msg = Some raw" "msg_from_user msg = Some uid"
    and "\<not> validators_url env (py_strip raw)"
  shows "download_video env update w = reply_text env invalid_url_text HTML w"
  using assms by (simp add: download_video_def io_defs)

lemma download_video_started:
  assumes "message update = Some msg" "msg_text msg = Some raw" "msg_from_user msg = Some uid"
    and "validators_url env (py_strip raw)"
    and "reply_text_raises env downloading_text = None"
  shows "download_video env update w =
     io_try (try_block env (py_strip raw) uid (msg_chat_id msg)) (except_clauses env)
       (w\<lparr>trace := trace w @ [ReplyText downloading_text HTML]\<rparr>)"
  using assms by (simp add: download_video_def reply_text_run reply_result_def io_defs)

lemma send_document_run:
  "send_document env a w =
     ((case send_document_raises env a of None \<Rightarrow> Inr () | Some e \<Rightarrow> Inl e),
      w\<lparr>trace := trace w @ [SendDocument a]\<rparr>)"
  by (simp add: send_document_def io_defs split: option.splits)

lemma try_block_oversized:
  assumes "extract_info_result env url = Inr i" "download_raises env [url] = None"
    and "staged_fs env url w (prepare_filename env (make_ydl_opts uid) i) = Some n"
    and "MAX_FILE_SIZE < n"
  shows "try_block env url uid chat w =
     (let p = prepare_filename env (make_ydl_opts uid) i;
          t = too_large_text (get_title i) n;
          evs = [NewYoutubeDL (make_ydl_opts uid), ExtractInfo url False, Download [url], ReplyText t HTML]
      in case reply_text_raises env t of
           Some e \<Rightarrow> (Inl e, \<lparr>fs = staged_fs env url w, trace = trace w @ evs\<rparr>)
         | None \<Rightarrow> (Inr (), \<lparr>fs = (staged_fs env url w)(p := None), trace = trace w @ evs @ [Remove p]\<rparr>))"
  using assms
  by (simp add: try_block_def extract_info_def download_def write_files_def getsize_def remove_def
      reply_text_run reply_result_def staged_fs_def io_defs Let_def split: option.splits)

lemma try_block_accepted:
  assumes "extract_info_result env url = Inr i" "download_raises env [url] = None"
    and "staged_fs env url w (prepare_filename env (make_ydl_opts uid) i) = Some n"
    and "\<not> MAX_FILE_SIZE < n"
  shows "try_block env url uid chat w =
     (let p = prepare_filename env (make_ydl_opts uid) i;
          a = document_args chat p (get_title i);
          evs = [NewYoutubeDL (make_ydl_opts uid), ExtractInfo url False, Download [url], SendDocument a]
      in case send_document_raises env a of
           Some e \<Rightarrow> (Inl e, \<lparr>fs = staged_fs env url w, trace = trace w @ evs\<rparr>)
         | None \<Rightarrow> (reply_result env cleanup_text,
                     \<lparr>fs = (staged_fs env url w)(p := None),
                      trace = trace w @ evs @ [Remove p, ReplyText cleanup_text HTML]\<rparr>))"
  using assms
  by (simp add: try_block_def extract_info_def download_def write_files_def getsize_def remove_def
      open_rb_def send_document_run document_args_def
      reply_text_run staged_fs_def io_defs Let_def split: option.splits)

lemma download_video_oversized:
  assumes "measured env update w msg raw uid i n" and "MAX_FILE_SIZE < n"
  shows "download_video env update w =
     (let url = py_strip raw; p = staged_path env uid i; t = too_large_text (get_title i) n
      in case reply_text_raises env t of
           None \<Rightarrow> (Inr (), \<lparr>fs = (staged_fs env url w)(p := None),
                     trace = trace w @ stage_events url uid @ [ReplyText t HTML, Remove p]\<rparr>)
         | Some e \<Rightarrow> (reply_result env (except_text e),
                     \<lparr>fs = staged_fs env url w,
                      trace = trace w @ stage_events url uid @ [ReplyText t HTML] @ except_events e\<rparr>))"
proof -
  let ?w1 = "w\<lparr>trace := trace w @ [ReplyText downloading_text HTML]\<rparr>"
  from assms(1) have st: "download_started env update msg raw uid"
    and ex: "extract_info_result env (py_strip raw) = Inr i"
    and dl: "download_raises env [py_strip raw] = None"
    and sz: "staged_fs env (py_strip raw) w (prepare_filename env (make_ydl_opts uid) i) = Some n"
    by (simp_all add: measured_def staged_path_def)
  from sz have sz1: "staged_fs env (py_strip raw) ?w1 (prepare_filename env (make_ydl_opts uid) i) = Some n"
    by (simp add: staged_fs_def)
  from st have "download_video env update w =
      io_try (try_block env (py_strip raw) uid (msg_chat_id msg)) (except_clauses env) ?w1"
    by (simp add: download_started_def text_message_def download_video_started)
  then show ?thesis
    by (simp add: io_try_def try_block_oversized [OF ex dl sz1 assms(2)] except_clauses_run
        staged_path_def stage_events_def staged_fs_def Let_def split: option.splits)
qed

lemma download_video_accepted:
  assumes "measured env update w msg raw uid i n" and "n \<le> MAX_FILE_SIZE"
  shows "download_video env update w =
     (let url = py_strip raw; p = staged_path env uid i;
          a = document_args (msg_chat_id msg) p (get_title i)
      in case send_document_raises env a of
           Some e \<Rightarrow> (reply_result env (except_text e),
                     \<lparr>fs = staged_fs env url w,
                      trace = trace w @ stage_events url uid @ [SendDocument a] @ except_events e\<rparr>)
         | None \<Rightarrow>
            (case reply_text_raises env cleanup_text of
               None \<Rightarrow> (Inr (), \<lparr>fs = (staged_fs env url w)(p := None),
                         trace = trace w @ stage_events url uid
                                 @ [SendDocument a, Remove p, ReplyText cleanup_text HTML]\<rparr>)
             | Some e \<Rightarrow> (reply_result env (except_text e),
                         \<lparr>fs = (staged_fs env url w)(p := None),
                          trace = trace w @ stage_events url uid
                                  @ [SendDocument a, Remove p, ReplyText cleanup_text HTML]
                                  @ except_events e\<rparr>)))"
proof -
  let ?w1 = "w\<lparr>trace := trace w @ [ReplyText downloading_text HTML]\<rparr>"
  from assms(1) have st: "download_started env update msg raw uid"
    and ex: "extract_info_result env (py_strip raw) = Inr i"
    and dl: "download_raises env [py_strip raw] = None"
    and sz: "staged_fs env (py_strip raw) w (prepare_filename env (make_ydl_opts uid) i) = Some n"
    by (simp_all add: measured_def staged_path_def)
  from sz have sz1: "staged_fs env (py_strip raw) ?w1 (prepare_filename env (make_ydl_opts uid) i) = Some n"
    by (simp add: staged_fs_def)
  from assms(2) have le: "\<not> MAX_FILE_SIZE < n" by simp
  from st have "download_video env update w =
      io_try (try_block env (py_strip raw) uid (msg_chat_id msg)) (except_clauses env) ?w1"
    by (simp add: download_started_def text_message_def download_video_started)
  then show ?thesis
    by (simp add: io_try_def try_block_accepted [OF ex dl sz1 le] except_clauses_run
        reply_result_def
        staged_path_def stage_events_def staged_fs_def Let_def split: option.splits)
qed

lemma py_strip_demo: "py_strip demo_raw = demo_url"
  by (simp add: py_strip_def demo_raw_def demo_url_def ascii_def is_space_def)

lemma measured_demo:
  "measured (demo_env n) demo_update demo_world demo_message demo_raw 7 demo_info n"
  unfolding measured_def download_started_def text_message_def staged_path_def staged_fs_def py_strip_demo
  by (simp add: demo_env_def demo_update_def demo_message_def demo_world_def)

lemma measured_flaky:
  "measured flaky_env demo_update demo_world demo_message demo_raw 7 demo_info demo_big"
  unfolding measured_def download_started_def text_message_def staged_path_def staged_fs_def py_strip_demo flaky_env_def
  apply (simp add: demo_env_def demo_update_def demo_message_def demo_world_def )
  apply (simp add: downloading_text_def too_large_text_def)
  done

lemma texts_distinct:
  "downloading_text \<noteq> too_large_text t n" "too_large_text t n \<noteq> downloading_text"
  "cleanup_text \<noteq> too_large_text t n" "too_large_text t n \<noteq> cleanup_text"
  "download_failed_text \<noteq> too_large_text t n" "too_large_text t n \<noteq> download_failed_text"
  "generic_error_text \<noteq> too_large_text t n" "too_large_text t n \<noteq> generic_error_text"
  "download_failed_text \<noteq> generic_error_text"
  "cleanup_text \<noteq> download_failed_text" "cleanup_text \<noteq> generic_error_text"
  "cleanup_text \<noteq> downloading_text"
  "invalid_url_text \<noteq> downloading_text"
  by (simp_all add: downloading_text_def too_large_text_def cleanup_text_def download_failed_text_def
      generic_error_text_def invalid_url_text_def ascii_def)

lemma mib_cents_nearest:
  assumes "n < 2 ^ 53"
  shows "2 ^ 20 * mib_cents n \<le> 100 * n + 2 ^ 19 \<and> 100 * n \<le> 2 ^ 20 * mib_cents n + 2 ^ 19"
proof -
  define q where "q = (n * 100) div 2 ^ 20"
  define r where "r = (n * 100) mod 2 ^ 20"
  have x: "n * 100 = q * 2 ^ 20 + r"
    unfolding q_def r_def by (rule div_mult_mod_eq [symmetric])
  have r: "r < 2 ^ 20"
    unfolding r_def by (rule mod_less_divisor) simp
  have c: "mib_cents n = (if 2 ^ 19 < r \<or> (r = 2 ^ 19 \<and> odd q) then q + 1 else q)"
    using assms by (simp add: mib_cents_def round53_def Let_def q_def r_def)
  show ?thesis
    using x r unfolding c by (auto simp: algebra_simps)
qed

lemma effects_eq: "trace (snd (m w)) = trace w @ evs \<Longrightarrow> effects m w = evs"
  by (simp add: effects_def)

section \<open>The format selector\<close>

text \<open>
  The selector handed to the download library is a literal with three alternatives
  separated by \<open>/\<close>, the same for every user; its bound is the text \<open>400M\<close>, not the
  constant \<open>MAX_FILE_SIZE\<close>. How the library orders and reads them is its own matter.
\<close>

lemma format_alternatives:
  "split_on 47 (format (make_ydl_opts user_id)) =
     [ascii ''bestvideo[filesize<400M][ext=mp4]+bestaudio[ext=m4a]'',
      ascii ''best[ext=mp4]'', ascii ''best''] \<and>
   split_on 43 (ascii ''bestvideo[filesize<400M][ext=mp4]+bestaudio[ext=m4a]'') =
     [ascii ''bestvideo[filesize<400M][ext=mp4]'', ascii ''bestaudio[ext=m4a]'']"
  by (simp add: make_ydl_opts_def ascii_def)


section \<open>The size gate\<close>

text \<open>
  C1, as amended. When the measured size exceeds \<open>MAX_FILE_SIZE\<close>: \<open>send_document\<close> is
  never called and the too-large notice is sent.
  If that reply does not raise, the staging file is gone when the handler returns, and
  the handler returns normally. If the reply raises, the exception is handled by an
  \<open>except\<close> clause and the file is still there at the end. The notice contains the title
  between quotes and the size as an integer part, a point and exactly two digits; for
  sizes below \<open>2 ^ 53\<close> bytes the number shown is the hundredth of a MiB nearest to
  \<open>n / 2 ^ 20\<close>.
\<close>

theorem oversized_rejected:
  assumes "measured env update w msg raw uid i n" and "MAX_FILE_SIZE < n"
  shows "(\<forall>a. SendDocument a \<notin> set (effects (download_video env update) w)) \<and>
         ReplyText (too_large_text (get_title i) n) HTML \<in> set (effects (download_video env update) w) \<and>
         (reply_text_raises env (too_large_text (get_title i) n) = None \<longrightarrow>
            files_after (download_video env update) w (staged_path env uid i) = None \<and>
            outcome (download_video env update) w = Inr ()) \<and>
         (reply_text_raises env (too_large_text (get_title i) n) \<noteq> None \<longrightarrow>
            files_after (download_video env update) w (staged_path env uid i) = Some n) \<and>
         too_large_text (get_title i) n =
            [0x274C] @ ascii '' <b>Sorry!</b> '' @ [39] @ get_title i @ [39] @ ascii '' is too large (''
            @ str_nat (mib_cents n div 100) @ [46, 48 + mib_cents n mod 100 div 10, 48 + mib_cents n mod 10]
            @ ascii '' MB). Max is 400MB! '' @ [0x1F61E] \<and>
         (n < 2 ^ 53 \<longrightarrow>
            2 ^ 20 * mib_cents n \<le> 100 * n + 2 ^ 19 \<and> 100 * n \<le> 2 ^ 20 * mib_cents n + 2 ^ 19)"
proof -
  let ?t = "too_large_text (get_title i) n"
  note run = download_video_oversized [OF assms]
  have tr: "effects (download_video env update) w =
      (case reply_text_raises env ?t of
         None \<Rightarrow> stage_events (py_strip raw) uid @ [ReplyText ?t HTML, Remove (staged_path env uid i)]
       | Some e \<Rightarrow> stage_events (py_strip raw) uid @ [ReplyText ?t HTML] @ except_events e)"
    by (rule effects_eq) (simp add: run Let_def split: option.splits)
  have a: "\<forall>a. SendDocument a \<notin> set (effects (download_video env update) w)"
    by (simp add: tr stage_events_def except_events_def split: option.splits)
  have b: "ReplyText ?t HTML \<in> set (effects (download_video env update) w)"
    by (simp add: tr split: option.splits)
  have c: "reply_text_raises env ?t = None \<longrightarrow>
            files_after (download_video env update) w (staged_path env uid i) = None \<and>
            outcome (download_video env update) w = Inr ()"
    by (simp add: run files_after_def outcome_def Let_def)
  have d: "reply_text_raises env ?t \<noteq> None \<longrightarrow>
            files_after (download_video env update) w (staged_path env uid i) = Some n"
    using assms(1) by (auto simp: run files_after_def Let_def measured_def)
  have e: "?t = [0x274C] @ ascii '' <b>Sorry!</b> '' @ [39] @ get_title i @ [39] @ ascii '' is too large (''
            @ str_nat (mib_cents n div 100) @ [46, 48 + mib_cents n mod 100 div 10, 48 + mib_cents n mod 10]
            @ ascii '' MB). Max is 400MB! '' @ [0x1F61E]"
    by (simp add: too_large_text_def fmt_mib_2f_def Let_def)
  have f: "n < 2 ^ 53 \<longrightarrow>
            2 ^ 20 * mib_cents n \<le> 100 * n + 2 ^ 19 \<and> 100 * n \<le> 2 ^ 20 * mib_cents n + 2 ^ 19"
    using mib_cents_nearest by blast
  from a b c d e f show ?thesis by blast
qed

theorem oversized_rejected_witness:
  "measured (demo_env demo_big) demo_update demo_world demo_message demo_raw 7 demo_info demo_big \<and>
   MAX_FILE_SIZE < demo_big \<and>
   files_after (download_video (demo_env demo_big) demo_update) demo_world demo_path = None \<and>
   outcome (download_video (demo_env demo_big) demo_update) demo_world = Inr () \<and>
   ReplyText (too_large_text (ascii ''clip'') demo_big) HTML
     \<in> set (effects (download_video (demo_env demo_big) demo_update) demo_world) \<and>
   fmt_mib_2f demo_big = ascii ''450.00''"
proof -
  have h1: "measured (demo_env demo_big) demo_update demo_world demo_message demo_raw 7 demo_info demo_big"
    by (rule measured_demo)
  have h2: "MAX_FILE_SIZE < demo_big"
    by (simp add: MAX_FILE_SIZE_def demo_big_def)
  have p: "staged_path (demo_env demo_big) 7 demo_info = demo_path"
    by (simp add: staged_path_def demo_env_def)
  have t: "get_title demo_info = ascii ''clip''"
    by (simp add: get_title_def demo_info_def)
  have r: "reply_text_raises (demo_env demo_big) (too_large_text (ascii ''clip'') demo_big) = None"
    by (simp add: demo_env_def)
  have f: "fmt_mib_2f demo_big = ascii ''450.00''"
    by (simp add: fmt_mib_2f_def mib_cents_def round53_def str_nat.simps ascii_def Let_def
        demo_big_def)
  from oversized_rejected [OF h1 h2] h1 h2 r f show ?thesis
    unfolding p t by blast
qed

text \<open>
  C1 as stated fails: the size is over the ceiling, the too-large notice raises (a
  network fault; or a parse error, since the title goes into the HTML text unescaped),
  the handler returns normally after the generic notice, and the file of 450 MiB is
  still in the staging directory.
\<close>

theorem oversized_file_stays_when_reply_raises:
  "MAX_FILE_SIZE < demo_big \<and>
   measured flaky_env demo_update demo_world demo_message demo_raw 7 demo_info demo_big \<and>
   outcome (download_video flaky_env demo_update) demo_world = Inr () \<and>
   files_after (download_video flaky_env demo_update) demo_world demo_path = Some demo_big"
proof -
  have h2: "MAX_FILE_SIZE < demo_big"
    by (simp add: MAX_FILE_SIZE_def demo_big_def)
  have t: "get_title demo_info = ascii ''clip''"
    by (simp add: get_title_def demo_info_def)
  have p: "staged_path flaky_env 7 demo_info = demo_path"
    by (simp add: staged_path_def flaky_env_def demo_env_def)
  have r: "reply_text_raises flaky_env (too_large_text (ascii ''clip'') demo_big) = Some (OtherException 400)"
    by (simp add: flaky_env_def)
  have g: "reply_text_raises flaky_env generic_error_text = None"
    using texts_distinct(7) [of "ascii ''clip''" demo_big] by (simp add: flaky_env_def)
  have s: "staged_fs flaky_env (py_strip demo_raw) demo_world demo_path = Some demo_big"
    by (simp add: staged_fs_def flaky_env_def demo_env_def)
  show ?thesis
    using h2 measured_flaky
    by (simp add: download_video_oversized [OF measured_flaky h2] outcome_def files_after_def
        Let_def t p r g s reply_result_def except_text_def)
qed

text \<open>
  C2, as amended. On a size-limit violation the too-large notice is sent first and the
  file is removed after it. The removal never precedes the notice; when the notice does
  not raise, the notice precedes the removal; when it raises, no removal is attempted.
\<close>

theorem too_large_reply_precedes_removal:
  assumes "measured env update w msg raw uid i n" and "MAX_FILE_SIZE < n"
  shows "\<not> precedes (Remove (staged_path env uid i)) (ReplyText (too_large_text (get_title i) n) HTML)
             (effects (download_video env update) w) \<and>
         (reply_text_raises env (too_large_text (get_title i) n) = None \<longrightarrow>
            precedes (ReplyText (too_large_text (get_title i) n) HTML) (Remove (staged_path env uid i))
              (effects (download_video env update) w)) \<and>
         (reply_text_raises env (too_large_text (get_title i) n) \<noteq> None \<longrightarrow>
            Remove (staged_path env uid i) \<notin> set (effects (download_video env update) w))"
proof -
  let ?t = "too_large_text (get_title i) n"
  note run = download_video_oversized [OF assms]
  have tr: "effects (download_video env update) w =
      (case reply_text_raises env ?t of
         None \<Rightarrow> stage_events (py_strip raw) uid @ [ReplyText ?t HTML, Remove (staged_path env uid i)]
       | Some e \<Rightarrow> stage_events (py_strip raw) uid @ [ReplyText ?t HTML] @ except_events e)"
    by (rule effects_eq) (simp add: run Let_def split: option.splits)
  show ?thesis
    by (simp add: tr stage_events_def except_events_def texts_distinct split: option.splits)
qed

theorem too_large_reply_precedes_removal_witness:
  "measured (demo_env demo_big) demo_update demo_world demo_message demo_raw 7 demo_info demo_big \<and>
   MAX_FILE_SIZE < demo_big \<and>
   precedes (ReplyText (too_large_text (ascii ''clip'') demo_big) HTML) (Remove demo_path)
     (effects (download_video (demo_env demo_big) demo_update) demo_world)"
proof -
  have h1: "measured (demo_env demo_big) demo_update demo_world demo_message demo_raw 7 demo_info demo_big"
    by (rule measured_demo)
  have h2: "MAX_FILE_SIZE < demo_big"
    by (simp add: MAX_FILE_SIZE_def demo_big_def)
  have p: "staged_path (demo_env demo_big) 7 demo_info = demo_path"
    by (simp add: staged_path_def demo_env_def)
  have t: "get_title demo_info = ascii ''clip''"
    by (simp add: get_title_def demo_info_def)
  have r: "reply_text_raises (demo_env demo_big) (too_large_text (ascii ''clip'') demo_big) = None"
    by (simp add: demo_env_def)
  from too_large_reply_precedes_removal [OF h1 h2] h1 h2 r show ?thesis
    unfolding p t by blast
qed

text \<open>
  C2 as stated fails: in this run over the ceiling every call succeeds, the effects are
  the six below, and the removal is the last of them, after the too-large notice.
\<close>

theorem removal_does_not_precede_too_large_reply:
  "MAX_FILE_SIZE < demo_big \<and>
   effects (download_video (demo_env demo_big) demo_update) demo_world =
     [ReplyText downloading_text HTML, NewYoutubeDL (make_ydl_opts 7), ExtractInfo demo_url False,
      Download [demo_url], ReplyText (too_large_text (ascii ''clip'') demo_big) HTML,
      Remove demo_path] \<and>
   \<not> precedes (Remove demo_path) (ReplyText (too_large_text (ascii ''clip'') demo_big) HTML)
       (effects (download_video (demo_env demo_big) demo_update) demo_world)"
proof -
  have h2: "MAX_FILE_SIZE < demo_big"
    by (simp add: MAX_FILE_SIZE_def demo_big_def)
  have p: "staged_path (demo_env demo_big) 7 demo_info = demo_path"
    by (simp add: staged_path_def demo_env_def)
  have t: "get_title demo_info = ascii ''clip''"
    by (simp add: get_title_def demo_info_def)
  have r: "reply_text_raises (demo_env demo_big) (too_large_text (ascii ''clip'') demo_big) = None"
    by (simp add: demo_env_def)
  have tr: "effects (download_video (demo_env demo_big) demo_update) demo_world =
     [ReplyText downloading_text HTML, NewYoutubeDL (make_ydl_opts 7), ExtractInfo demo_url False,
      Download [demo_url], ReplyText (too_large_text (ascii ''clip'') demo_big) HTML,
      Remove demo_path]"
  proof (rule effects_eq)
    have e: "trace demo_world = []"
      by (simp add: demo_world_def)
    show "trace (snd (download_video (demo_env demo_big) demo_update demo_world)) = trace demo_world @
       [ReplyText downloading_text HTML, NewYoutubeDL (make_ydl_opts 7), ExtractInfo demo_url False,
        Download [demo_url], ReplyText (too_large_text (ascii ''clip'') demo_big) HTML,
        Remove demo_path]"
      by (simp add: download_video_oversized [OF measured_demo h2] Let_def p t r py_strip_demo
          stage_events_def e)
  qed
  show ?thesis
    unfolding tr using h2 by (simp add: texts_distinct)
qed

lemma effects_accepted:
  assumes "measured env update w msg raw uid i n" and "n \<le> MAX_FILE_SIZE"
  shows "effects (download_video env update) w =
     (case send_document_raises env (document_args (msg_chat_id msg) (staged_path env uid i) (get_title i)) of
        Some e \<Rightarrow> stage_events (py_strip raw) uid
                  @ [SendDocument (document_args (msg_chat_id msg) (staged_path env uid i) (get_title i))]
                  @ except_events e
      | None \<Rightarrow>
          stage_events (py_strip raw) uid
          @ [SendDocument (document_args (msg_chat_id msg) (staged_path env uid i) (get_title i)),
             Remove (staged_path env uid i), ReplyText cleanup_text HTML]
          @ (case reply_text_raises env cleanup_text of None \<Rightarrow> [] | Some e \<Rightarrow> except_events e))"
  by (rule effects_eq)
    (simp add: download_video_accepted [OF assms] Let_def split: option.splits)

lemma effects_oversized:
  assumes "measured env update w msg raw uid i n" and "MAX_FILE_SIZE < n"
  shows "effects (download_video env update) w =
      (case reply_text_raises env (too_large_text (get_title i) n) of
         None \<Rightarrow> stage_events (py_strip raw) uid
                 @ [ReplyText (too_large_text (get_title i) n) HTML, Remove (staged_path env uid i)]
       | Some e \<Rightarrow> stage_events (py_strip raw) uid
                   @ [ReplyText (too_large_text (get_title i) n) HTML] @ except_events e)"
  by (rule effects_eq)
    (simp add: download_video_oversized [OF assms] Let_def split: option.splits)

lemma measured_size:
  "measured env update w msg raw uid i n \<Longrightarrow>
     staged_fs env (py_strip raw) w (staged_path env uid i) = Some n"
  by (simp add: measured_def)

section \<open>Validation\<close>

text \<open>
  C4. When the stripped text fails validation (\<open>validators.url\<close>, read through its truth
  value, answers false), the only effect of the handler is the invalid-URL notice: no
  progress notice, no downloader, no probe, no download, and the staging directory is
  unchanged. The handler ends with that reply; it returns normally unless the reply
  itself raises.
\<close>

theorem invalid_url_rejected:
  assumes "text_message update msg raw uid" and "\<not> validators_url env (py_strip raw)"
  shows "effects (download_video env update) w = [ReplyText invalid_url_text HTML] \<and>
         files_after (download_video env update) w = fs w \<and>
         outcome (download_video env update) w =
           (case reply_text_raises env invalid_url_text of None \<Rightarrow> Inr () | Some e \<Rightarrow> Inl e) \<and>
         (reply_text_raises env invalid_url_text = None \<longrightarrow>
            outcome (download_video env update) w = Inr ()) \<and>
         ReplyText downloading_text HTML \<notin> set (effects (download_video env update) w) \<and>
         (\<forall>opts. NewYoutubeDL opts \<notin> set (effects (download_video env update) w)) \<and>
         (\<forall>url dl. ExtractInfo url dl \<notin> set (effects (download_video env update) w)) \<and>
         (\<forall>urls. Download urls \<notin> set (effects (download_video env update) w))"
proof -
  from assms have run: "download_video env update w = reply_text env invalid_url_text HTML w"
    by (simp add: text_message_def download_video_invalid)
  have ev: "effects (download_video env update) w = [ReplyText invalid_url_text HTML]"
    by (rule effects_eq) (simp add: run reply_text_run)
  show ?thesis
    unfolding ev
    by (simp add: run reply_text_run files_after_def outcome_def reply_result_def
        texts_distinct [symmetric])
qed

theorem invalid_url_rejected_witness:
  "text_message invalid_update \<lparr> msg_text = Some (ascii ''hello there''), msg_from_user = Some 7,
                                 msg_chat_id = 70 \<rparr> (ascii ''hello there'') 7 \<and>
   \<not> validators_url (demo_env 0) (py_strip (ascii ''hello there'')) \<and>
   effects (download_video (demo_env 0) invalid_update) demo_world = [ReplyText invalid_url_text HTML] \<and>
   files_after (download_video (demo_env 0) invalid_update) demo_world = fs demo_world \<and>
   outcome (download_video (demo_env 0) invalid_update) demo_world = Inr ()"
proof -
  have h1: "text_message invalid_update \<lparr> msg_text = Some (ascii ''hello there''), msg_from_user = Some 7,
                                 msg_chat_id = 70 \<rparr> (ascii ''hello there'') 7"
    by (simp add: text_message_def invalid_update_def)
  have h2: "\<not> validators_url (demo_env 0) (py_strip (ascii ''hello there''))"
    by (simp add: demo_env_def py_strip_def ascii_def is_space_def demo_url_def)
  have r: "reply_text_raises (demo_env 0) invalid_url_text = None"
    by (simp add: demo_env_def)
  from invalid_url_rejected [OF h1 h2, of demo_world] h1 h2 r show ?thesis
    by blast
qed

section \<open>Delivery\<close>

text \<open>
  C5. An artifact within the ceiling is passed to \<open>send_document\<close>, right after the four
  calls of the download stage and before any removal, with the chat of the message, the
  staged file as document, the title followed by \<open>.mp4\<close> as file name, a caption that
  contains the title, and content-type detection disabled. When the upload does not
  raise, the next two effects are the removal of the file and the cleanup notice, and the
  file is gone at the end. When the upload raises, there is no removal and no cleanup
  notice, and the file is still there at the end.
\<close>

theorem accepted_sent_as_document:
  assumes "measured env update w msg raw uid i n" and "n \<le> MAX_FILE_SIZE"
  shows "take 5 (effects (download_video env update) w) =
           stage_events (py_strip raw) uid
           @ [SendDocument (document_args (msg_chat_id msg) (staged_path env uid i) (get_title i))] \<and>
         document_args (msg_chat_id msg) (staged_path env uid i) (get_title i) =
           \<lparr> chat_id = msg_chat_id msg, document = staged_path env uid i,
             filename = get_title i @ ascii ''.mp4'',
             caption = [0x1F389] @ ascii '' <b>Here'' @ [0x2019] @ ascii ''s your file!</b> ''
                       @ get_title i @ ascii '' '' @ [0x1F680],
             parse_mode = ascii ''HTML'', disable_content_type_detection = True \<rparr> \<and>
         (send_document_raises env
            (document_args (msg_chat_id msg) (staged_path env uid i) (get_title i)) = None \<longrightarrow>
            take 7 (effects (download_video env update) w) =
              stage_events (py_strip raw) uid
              @ [SendDocument (document_args (msg_chat_id msg) (staged_path env uid i) (get_title i)),
                 Remove (staged_path env uid i), ReplyText cleanup_text HTML] \<and>
            files_after (download_video env update) w (staged_path env uid i) = None) \<and>
         (send_document_raises env
            (document_args (msg_chat_id msg) (staged_path env uid i) (get_title i)) \<noteq> None \<longrightarrow>
            Remove (staged_path env uid i) \<notin> set (effects (download_video env update) w) \<and>
            ReplyText cleanup_text HTML \<notin> set (effects (download_video env update) w) \<and>
            files_after (download_video env update) w (staged_path env uid i) = Some n)"
proof -
  note ev = effects_accepted [OF assms]
  note run = download_video_accepted [OF assms]
  note sz = measured_size [OF assms(1)]
  have a: "take 5 (effects (download_video env update) w) =
           stage_events (py_strip raw) uid
           @ [SendDocument (document_args (msg_chat_id msg) (staged_path env uid i) (get_title i))]"
    by (simp add: ev stage_events_def split: option.splits)
  have b: "document_args (msg_chat_id msg) (staged_path env uid i) (get_title i) =
           \<lparr> chat_id = msg_chat_id msg, document = staged_path env uid i,
             filename = get_title i @ ascii ''.mp4'',
             caption = [0x1F389] @ ascii '' <b>Here'' @ [0x2019] @ ascii ''s your file!</b> ''
                       @ get_title i @ ascii '' '' @ [0x1F680],
             parse_mode = ascii ''HTML'', disable_content_type_detection = True \<rparr>"
    by (simp add: document_args_def caption_text_def HTML_def)
  have c: "send_document_raises env
            (document_args (msg_chat_id msg) (staged_path env uid i) (get_title i)) = None \<longrightarrow>
            take 7 (effects (download_video env update) w) =
              stage_events (py_strip raw) uid
              @ [SendDocument (document_args (msg_chat_id msg) (staged_path env uid i) (get_title i)),
                 Remove (staged_path env uid i), ReplyText cleanup_text HTML] \<and>
            files_after (download_video env update) w (staged_path env uid i) = None"
    by (simp add: ev run files_after_def Let_def stage_events_def split: option.splits)
  have d: "send_document_raises env
            (document_args (msg_chat_id msg) (staged_path env uid i) (get_title i)) \<noteq> None \<longrightarrow>
            Remove (staged_path env uid i) \<notin> set (effects (download_video env update) w) \<and>
            ReplyText cleanup_text HTML \<notin> set (effects (download_video env update) w) \<and>
            files_after (download_video env update) w (staged_path env uid i) = Some n"
    using sz
    by (auto simp: ev run files_after_def Let_def stage_events_def except_events_def texts_distinct
        split: option.splits if_splits)
  from a b c d show ?thesis by blast
qed

lemma measured_upload_fails:
  "measured upload_fails_env demo_update demo_world demo_message demo_raw 7 demo_info demo_small"
  unfolding measured_def download_started_def text_message_def staged_path_def staged_fs_def
    py_strip_demo upload_fails_env_def
  by (simp add: demo_env_def demo_update_def demo_message_def demo_world_def)

lemma demo_small_le: "demo_small \<le> MAX_FILE_SIZE"
  by (simp add: demo_small_def MAX_FILE_SIZE_def)

lemma demo_title: "get_title demo_info = ascii ''clip''"
  by (simp add: get_title_def demo_info_def)

lemma demo_staged_path: "staged_path (demo_env n) 7 demo_info = demo_path"
  by (simp add: staged_path_def demo_env_def)

lemma demo_chat: "msg_chat_id demo_message = 70"
  by (simp add: demo_message_def)

theorem accepted_sent_as_document_witness:
  "measured (demo_env demo_small) demo_update demo_world demo_message demo_raw 7 demo_info demo_small \<and>
   demo_small \<le> MAX_FILE_SIZE \<and>
   take 7 (effects (download_video (demo_env demo_small) demo_update) demo_world) =
     stage_events (py_strip demo_raw) 7
     @ [SendDocument (document_args 70 demo_path (ascii ''clip'')),
        Remove demo_path, ReplyText cleanup_text HTML] \<and>
   files_after (download_video (demo_env demo_small) demo_update) demo_world demo_path = None \<and>
   measured upload_fails_env demo_update demo_world demo_message demo_raw 7 demo_info demo_small \<and>
   Remove demo_path \<notin> set (effects (download_video upload_fails_env demo_update) demo_world) \<and>
   files_after (download_video upload_fails_env demo_update) demo_world demo_path = Some demo_small"
proof -
  have p: "staged_path upload_fails_env 7 demo_info = demo_path"
    by (simp add: staged_path_def upload_fails_env_def demo_env_def)
  have ok: "send_document_raises (demo_env demo_small) (document_args 70 demo_path (ascii ''clip'')) = None"
    by (simp add: demo_env_def)
  have ko: "send_document_raises upload_fails_env (document_args 70 demo_path (ascii ''clip'')) \<noteq> None"
    by (simp add: upload_fails_env_def)
  from accepted_sent_as_document [OF measured_demo demo_small_le]
       accepted_sent_as_document [OF measured_upload_fails demo_small_le]
       measured_demo [of demo_small] measured_upload_fails demo_small_le ok ko
  show ?thesis
    unfolding p demo_staged_path demo_title demo_chat by blast
qed

text \<open>
  C9. The comparison with the ceiling is strict. For a measured size \<open>n\<close>, the too-large
  notice is sent exactly when \<open>MAX_FILE_SIZE < n\<close> and \<open>send_document\<close> is called exactly
  when \<open>n \<le> MAX_FILE_SIZE\<close>; at \<open>n = MAX_FILE_SIZE\<close> the file is passed to
  \<open>send_document\<close> and no too-large notice is sent.
\<close>

theorem ceiling_is_inclusive:
  assumes "measured env update w msg raw uid i n"
  shows "(n = MAX_FILE_SIZE \<longrightarrow>
            SendDocument (document_args (msg_chat_id msg) (staged_path env uid i) (get_title i))
              \<in> set (effects (download_video env update) w) \<and>
            ReplyText (too_large_text (get_title i) n) HTML
              \<notin> set (effects (download_video env update) w)) \<and>
         (ReplyText (too_large_text (get_title i) n) HTML
              \<in> set (effects (download_video env update) w) \<longleftrightarrow> MAX_FILE_SIZE < n) \<and>
         ((\<exists>a. SendDocument a \<in> set (effects (download_video env update) w)) \<longleftrightarrow> n \<le> MAX_FILE_SIZE)"
proof (cases "MAX_FILE_SIZE < n")
  case True
  show ?thesis
    using True
    by (simp add: effects_oversized [OF assms True] stage_events_def except_events_def
        split: option.splits)
next
  case False
  then have le: "n \<le> MAX_FILE_SIZE" by simp
  show ?thesis
    using False le
    by (auto simp: effects_accepted [OF assms le] stage_events_def except_events_def texts_distinct
        split: option.splits if_splits)
qed

theorem ceiling_is_inclusive_witness:
  "measured (demo_env MAX_FILE_SIZE) demo_update demo_world demo_message demo_raw 7 demo_info
     MAX_FILE_SIZE \<and>
   SendDocument (document_args 70 demo_path (ascii ''clip''))
     \<in> set (effects (download_video (demo_env MAX_FILE_SIZE) demo_update) demo_world) \<and>
   ReplyText (too_large_text (ascii ''clip'') MAX_FILE_SIZE) HTML
     \<notin> set (effects (download_video (demo_env MAX_FILE_SIZE) demo_update) demo_world)"
  using ceiling_is_inclusive [OF measured_demo [of MAX_FILE_SIZE]] measured_demo [of MAX_FILE_SIZE]
  unfolding demo_staged_path demo_title demo_chat by blast

text \<open>
  C10. When the probe result has no title, the title is \<open>video\<close>: an oversized file is
  reported with the too-large notice for \<open>video\<close>, and an accepted one is sent under the
  file name \<open>video.mp4\<close> with the caption for \<open>video\<close>.
\<close>

theorem missing_title_defaults_to_video:
  assumes "measured env update w msg raw uid i n" and "title i = None"
  shows "(MAX_FILE_SIZE < n \<longrightarrow>
            ReplyText (too_large_text (ascii ''video'') n) HTML
              \<in> set (effects (download_video env update) w)) \<and>
         (n \<le> MAX_FILE_SIZE \<longrightarrow>
            SendDocument \<lparr> chat_id = msg_chat_id msg, document = staged_path env uid i,
                           filename = ascii ''video.mp4'',
                           caption = caption_text (ascii ''video''),
                           parse_mode = HTML, disable_content_type_detection = True \<rparr>
              \<in> set (effects (download_video env update) w))"
proof -
  from assms(2) have t: "get_title i = ascii ''video''"
    by (simp add: get_title_def)
  have f: "ascii ''video'' @ ascii ''.mp4'' = ascii ''video.mp4''"
    by (simp add: ascii_def)
  have a: "MAX_FILE_SIZE < n \<longrightarrow>
            ReplyText (too_large_text (ascii ''video'') n) HTML
              \<in> set (effects (download_video env update) w)"
    using effects_oversized [OF assms(1)] by (auto simp: t split: option.splits)
  have b: "n \<le> MAX_FILE_SIZE \<longrightarrow>
            SendDocument (document_args (msg_chat_id msg) (staged_path env uid i) (ascii ''video''))
              \<in> set (effects (download_video env update) w)"
    using effects_accepted [OF assms(1)] by (auto simp: t split: option.splits)
  from a b show ?thesis
    by (simp add: document_args_def f)
qed

lemma measured_untitled:
  "measured (untitled_env n) demo_update demo_world demo_message demo_raw 7 untitled_info n"
  unfolding measured_def download_started_def text_message_def staged_path_def staged_fs_def
    py_strip_demo untitled_env_def
  by (simp add: demo_env_def demo_update_def demo_message_def demo_world_def)

theorem missing_title_defaults_to_video_witness:
  "measured (untitled_env demo_big) demo_update demo_world demo_message demo_raw 7 untitled_info demo_big \<and>
   measured (untitled_env demo_small) demo_update demo_world demo_message demo_raw 7 untitled_info demo_small \<and>
   title untitled_info = None \<and>
   ReplyText (too_large_text (ascii ''video'') demo_big) HTML
     \<in> set (effects (download_video (untitled_env demo_big) demo_update) demo_world) \<and>
   SendDocument \<lparr> chat_id = 70, document = demo_path, filename = ascii ''video.mp4'',
                  caption = caption_text (ascii ''video''),
                  parse_mode = HTML, disable_content_type_detection = True \<rparr>
     \<in> set (effects (download_video (untitled_env demo_small) demo_update) demo_world)"
proof -
  have n: "title untitled_info = None"
    by (simp add: untitled_info_def)
  have p: "staged_path (untitled_env k) 7 untitled_info = demo_path" for k
    by (simp add: staged_path_def untitled_env_def demo_env_def)
  have big: "MAX_FILE_SIZE < demo_big"
    by (simp add: MAX_FILE_SIZE_def demo_big_def)
  from missing_title_defaults_to_video [OF measured_untitled [of demo_big] n]
       missing_title_defaults_to_video [OF measured_untitled [of demo_small] n]
       measured_untitled [of demo_big] measured_untitled [of demo_small] n big demo_small_le
  show ?thesis
    unfolding p demo_chat by blast
qed

section \<open>Failures\<close>

text \<open>
  C6, as amended. Suppose the \<open>try\<close> block, started after the progress notice, raises
  \<open>e\<close> and leaves the state \<open>w2\<close>. If \<open>e\<close> is the library's download error, the handler
  adds exactly one effect, the download-failed notice; otherwise exactly two, the log
  entry carrying \<open>e\<close> and the generic notice. The two notices differ. Nothing is retried
  and no file is touched. The caught exception is never raised again. The handler ends
  as that notice does: it returns normally when the notice does not raise, and an
  exception raised by the notice leaves the handler.
\<close>

theorem failures_caught_and_reported:
  assumes "download_started env update msg raw uid"
    and "try_block env (py_strip raw) uid (msg_chat_id msg) (started_world w) = (Inl e, w2)"
  shows "trace (snd (download_video env update w)) =
           trace w2 @ (if e = DownloadError then [ReplyText download_failed_text HTML]
                       else [LogError (ProcessingError e), ReplyText generic_error_text HTML]) \<and>
         files_after (download_video env update) w = fs w2 \<and>
         outcome (download_video env update) w =
           (case reply_text_raises env
                   (if e = DownloadError then download_failed_text else generic_error_text) of
              None \<Rightarrow> Inr () | Some e' \<Rightarrow> Inl e') \<and>
         (reply_text_raises env
            (if e = DownloadError then download_failed_text else generic_error_text) = None \<longrightarrow>
            outcome (download_video env update) w = Inr ()) \<and>
         download_failed_text \<noteq> generic_error_text"
proof -
  from assms(1) have "download_video env update w =
      io_try (try_block env (py_strip raw) uid (msg_chat_id msg)) (except_clauses env) (started_world w)"
    by (simp add: download_started_def text_message_def download_video_started started_world_def)
  with assms(2) have run: "download_video env update w = except_clauses env e w2"
    by (simp add: io_try_def)
  show ?thesis
    by (simp add: run except_clauses_run except_events_def except_text_def files_after_def
        outcome_def reply_result_def texts_distinct)
qed

lemma started_unsupported:
  "download_started unsupported_env demo_update demo_message demo_raw 7"
  unfolding download_started_def text_message_def py_strip_demo unsupported_env_def
  by (simp add: demo_env_def demo_update_def demo_message_def)

lemma started_nothing_written:
  "download_started nothing_written_env demo_update demo_message demo_raw 7"
  unfolding download_started_def text_message_def py_strip_demo nothing_written_env_def
  by (simp add: demo_env_def demo_update_def demo_message_def)

lemmas prim_defs = extract_info_def download_def write_files_def getsize_def remove_def open_rb_def

lemma try_block_unsupported:
  "try_block unsupported_env (py_strip demo_raw) 7 (msg_chat_id demo_message) (started_world demo_world) =
     (Inl DownloadError,
      \<lparr>fs = Map.empty,
       trace = [ReplyText downloading_text HTML, NewYoutubeDL (make_ydl_opts 7),
                ExtractInfo demo_url False]\<rparr>)"
  unfolding py_strip_demo
  by (simp add: try_block_def prim_defs io_defs unsupported_env_def demo_env_def demo_world_def
      started_world_def)

lemma try_block_nothing_written:
  "try_block nothing_written_env (py_strip demo_raw) 7 (msg_chat_id demo_message) (started_world demo_world) =
     (Inl FileNotFoundError,
      \<lparr>fs = Map.empty,
       trace = [ReplyText downloading_text HTML, NewYoutubeDL (make_ydl_opts 7),
                ExtractInfo demo_url False, Download [demo_url]]\<rparr>)"
  unfolding py_strip_demo
  by (simp add: try_block_def prim_defs io_defs nothing_written_env_def demo_env_def demo_world_def
      started_world_def Let_def)

lemma started_upload_fails:
  "download_started upload_fails_env demo_update demo_message demo_raw 7"
  using measured_upload_fails by (simp add: measured_def)

lemma try_block_upload_fails:
  "try_block upload_fails_env (py_strip demo_raw) 7 (msg_chat_id demo_message) (started_world demo_world) =
     (Inl (OtherException 502),
      \<lparr>fs = [demo_path \<mapsto> demo_small],
       trace = stage_events demo_url 7 @ [SendDocument (document_args 70 demo_path (ascii ''clip''))]\<rparr>)"
  unfolding py_strip_demo
  by (simp add: try_block_def prim_defs io_defs send_document_run upload_fails_env_def demo_env_def
      demo_world_def started_world_def Let_def MAX_FILE_SIZE_def demo_small_def stage_events_def
      document_args_def demo_message_def get_title_def demo_info_def)

theorem failures_caught_and_reported_witness:
  "download_started unsupported_env demo_update demo_message demo_raw 7 \<and>
   trace (snd (download_video unsupported_env demo_update demo_world)) =
     [ReplyText downloading_text HTML, NewYoutubeDL (make_ydl_opts 7), ExtractInfo demo_url False,
      ReplyText download_failed_text HTML] \<and>
   outcome (download_video unsupported_env demo_update) demo_world = Inr () \<and>
   download_started nothing_written_env demo_update demo_message demo_raw 7 \<and>
   trace (snd (download_video nothing_written_env demo_update demo_world)) =
     [ReplyText downloading_text HTML, NewYoutubeDL (make_ydl_opts 7), ExtractInfo demo_url False,
      Download [demo_url], LogError (ProcessingError FileNotFoundError),
      ReplyText generic_error_text HTML] \<and>
   outcome (download_video nothing_written_env demo_update) demo_world = Inr () \<and>
   download_started upload_fails_env demo_update demo_message demo_raw 7 \<and>
   trace (snd (download_video upload_fails_env demo_update demo_world)) =
     stage_events demo_url 7
     @ [SendDocument (document_args 70 demo_path (ascii ''clip'')),
        LogError (ProcessingError (OtherException 502)), ReplyText generic_error_text HTML] \<and>
   outcome (download_video upload_fails_env demo_update) demo_world = Inr ()"
proof -
  have r1: "reply_text_raises unsupported_env download_failed_text = None"
    by (simp add: unsupported_env_def demo_env_def)
  have r2: "reply_text_raises nothing_written_env generic_error_text = None"
    by (simp add: nothing_written_env_def demo_env_def)
  have r3: "reply_text_raises upload_fails_env generic_error_text = None"
    by (simp add: upload_fails_env_def demo_env_def)
  from failures_caught_and_reported [OF started_unsupported try_block_unsupported]
       failures_caught_and_reported [OF started_nothing_written try_block_nothing_written]
       failures_caught_and_reported [OF started_upload_fails try_block_upload_fails]
       started_unsupported started_nothing_written started_upload_fails r1 r2 r3
  show ?thesis
    by simp
qed

text \<open>
  C6 as stated fails: the probe raises the download error, the download-failed notice
  raises in turn, and that exception leaves the handler instead of a normal return.
\<close>

theorem failure_notice_raise_leaves_handler:
  "download_started notice_fails_env demo_update demo_message demo_raw 7 \<and>
   try_block notice_fails_env (py_strip demo_raw) 7 (msg_chat_id demo_message)
       (started_world demo_world) =
     (Inl DownloadError,
      \<lparr>fs = Map.empty,
       trace = [ReplyText downloading_text HTML, NewYoutubeDL (make_ydl_opts 7),
                ExtractInfo demo_url False]\<rparr>) \<and>
   effects (download_video notice_fails_env demo_update) demo_world =
     [ReplyText downloading_text HTML, NewYoutubeDL (make_ydl_opts 7), ExtractInfo demo_url False,
      ReplyText download_failed_text HTML] \<and>
   outcome (download_video notice_fails_env demo_update) demo_world = Inl (OtherException 400)"
proof -
  have d: "downloading_text \<noteq> download_failed_text"
    by (simp add: downloading_text_def download_failed_text_def)
  have st: "download_started notice_fails_env demo_update demo_message demo_raw 7"
    unfolding download_started_def text_message_def py_strip_demo notice_fails_env_def
      unsupported_env_def
    using d by (simp add: demo_env_def demo_update_def demo_message_def)
  have tb: "try_block notice_fails_env (py_strip demo_raw) 7 (msg_chat_id demo_message)
       (started_world demo_world) =
     (Inl DownloadError,
      \<lparr>fs = Map.empty,
       trace = [ReplyText downloading_text HTML, NewYoutubeDL (make_ydl_opts 7),
                ExtractInfo demo_url False]\<rparr>)"
    unfolding py_strip_demo
    by (simp add: try_block_def prim_defs io_defs notice_fails_env_def unsupported_env_def
        demo_env_def demo_world_def started_world_def)
  have r: "reply_text_raises notice_fails_env download_failed_text = Some (OtherException 400)"
    by (simp add: notice_fails_env_def)
  from st have "download_video notice_fails_env demo_update demo_world =
      io_try (try_block notice_fails_env (py_strip demo_raw) 7 (msg_chat_id demo_message))
        (except_clauses notice_fails_env) (started_world demo_world)"
    by (simp add: download_started_def text_message_def download_video_started started_world_def)
  with tb have run: "download_video notice_fails_env demo_update demo_world =
      (Inl (OtherException 400),
       \<lparr>fs = Map.empty,
        trace = [ReplyText downloading_text HTML, NewYoutubeDL (make_ydl_opts 7),
                 ExtractInfo demo_url False, ReplyText download_failed_text HTML]\<rparr>)"
    by (simp add: io_try_def except_clauses_run except_events_def except_text_def
        reply_result_def r)
  have ev: "effects (download_video notice_fails_env demo_update) demo_world =
     [ReplyText downloading_text HTML, NewYoutubeDL (make_ydl_opts 7), ExtractInfo demo_url False,
      ReplyText download_failed_text HTML]"
  proof (rule effects_eq)
    have e: "trace demo_world = []"
      by (simp add: demo_world_def)
    show "trace (snd (download_video notice_fails_env demo_update demo_world)) =
      trace demo_world @
      [ReplyText downloading_text HTML, NewYoutubeDL (make_ydl_opts 7), ExtractInfo demo_url False,
       ReplyText download_failed_text HTML]"
      by (simp add: run e)
  qed
  from st tb ev show ?thesis
    by (simp add: outcome_def run)
qed

text \<open>
  C7. \<open>error_handler\<close> first logs the update together with the error, and replies with
  the apology exactly when the update is there and carries a message; otherwise it logs
  and sends nothing. It does not touch the staging directory.
\<close>

theorem error_handler_logs_and_apologises:
  "effects (error_handler env update err) w =
     LogError (UpdateCausedError update err)
     # (if \<exists>u m. update = Some u \<and> message u = Some m then [ReplyText apology_text HTML] else []) \<and>
   (ReplyText apology_text HTML \<in> set (effects (error_handler env update err) w) \<longleftrightarrow>
      (\<exists>u m. update = Some u \<and> message u = Some m)) \<and>
   files_after (error_handler env update err) w = fs w"
proof -
  have hm: "has_message update \<longleftrightarrow> (\<exists>u m. update = Some u \<and> message u = Some m)"
    by (auto simp: has_message_def split: option.splits)
  have run: "error_handler env update err w =
      (if has_message update then reply_result env apology_text else Inr (),
       w\<lparr>trace := trace w @ LogError (UpdateCausedError update err)
                   # (if has_message update then [ReplyText apology_text HTML] else [])\<rparr>)"
    by (simp add: error_handler_def reply_text_run io_defs)
  have ev: "effects (error_handler env update err) w =
     LogError (UpdateCausedError update err)
     # (if has_message update then [ReplyText apology_text HTML] else [])"
    by (rule effects_eq) (simp add: run)
  show ?thesis
    unfolding ev hm [symmetric]
    by (simp add: run files_after_def)
qed

theorem error_handler_logs_and_apologises_witness:
  "download_video (demo_env 0) edited_update demo_world = (Inl AttributeError, demo_world) \<and>
   effects (error_handler (demo_env 0) (Some edited_update) AttributeError) demo_world =
     [LogError (UpdateCausedError (Some edited_update) AttributeError)] \<and>
   effects (error_handler (demo_env 0) None AttributeError) demo_world =
     [LogError (UpdateCausedError None AttributeError)] \<and>
   effects (error_handler (demo_env 0) (Some demo_update) AttributeError) demo_world =
     [LogError (UpdateCausedError (Some demo_update) AttributeError), ReplyText apology_text HTML]"
proof -
  have h: "download_video (demo_env 0) edited_update demo_world = (Inl AttributeError, demo_world)"
    by (simp add: download_video_def edited_update_def io_defs)
  have n: "\<not> (\<exists>u m. Some edited_update = Some u \<and> message u = Some m)"
    by (simp add: edited_update_def)
  have y: "\<exists>u m. Some demo_update = Some u \<and> message u = Some m"
    by (simp add: demo_update_def)
  from error_handler_logs_and_apologises [of "demo_env 0" "Some edited_update" AttributeError demo_world]
       error_handler_logs_and_apologises [of "demo_env 0" None AttributeError demo_world]
       error_handler_logs_and_apologises [of "demo_env 0" "Some demo_update" AttributeError demo_world]
       h n y
  show ?thesis
    by simp
qed

section \<open>Stripping\<close>

lemma py_strip_surrounded:
  assumes "\<forall>c\<in>set l. is_space c" and "\<forall>c\<in>set r. is_space c"
    and "u \<noteq> []" and "\<not> is_space (hd u)" and "\<not> is_space (last u)"
  shows "py_strip (l @ u @ r) = u"
proof -
  from assms(3,4) have front: "dropWhile is_space (u @ r) = u @ r"
    by (cases u) simp_all
  from assms(3,5) have rear: "dropWhile is_space (rev u) = rev u"
    by (cases "rev u") (simp_all add: last_rev [symmetric] hd_rev del: last_rev)
  have "dropWhile is_space (l @ u @ r) = u @ r"
    using assms(1) front by (simp add: dropWhile_append2)
  moreover have "dropWhile is_space (rev r @ rev u) = dropWhile is_space (rev u)"
    using assms(2) by (intro dropWhile_append2) simp
  moreover note rear
  ultimately show ?thesis
    by (simp add: py_strip_def)
qed

lemma try_block_begins:
  "\<exists>evs. trace (snd (try_block env url uid chat w)) =
     trace w @ [NewYoutubeDL (make_ydl_opts uid), ExtractInfo url False] @ evs"
  by (simp add: try_block_def prim_defs io_defs reply_text_run reply_result_def send_document_run
      Let_def split: option.splits sum.splits)

lemma try_block_downloads:
  "extract_info_result env url = Inr i \<Longrightarrow>
   \<exists>evs. trace (snd (try_block env url uid chat w)) =
     trace w @ [NewYoutubeDL (make_ydl_opts uid), ExtractInfo url False, Download [url]] @ evs"
  by (simp add: try_block_def prim_defs io_defs reply_text_run reply_result_def send_document_run
      Let_def split: option.splits sum.splits)

lemma io_try_except_trace:
  "\<exists>evs. trace (snd (io_try m (except_clauses env) w)) = trace (snd (m w)) @ evs"
  by (cases "m w") (simp add: io_try_def except_clauses_run split: sum.splits)

text \<open>
  C8. When the text is \<open>u\<close> surrounded by whitespace (\<open>u\<close> not empty, neither starting nor
  ending with whitespace) and the validator accepts \<open>u\<close>: stripping gives \<open>u\<close>, and the
  handler is the progress notice followed by the \<open>try\<close> statement run on \<open>u\<close>. The first
  effect is the progress notice; when it does not raise, the next ones are the
  construction of the downloader and the probe of \<open>u\<close>, and after a successful probe the
  download of \<open>[u]\<close>.
\<close>

theorem url_is_stripped:
  assumes "text_message update msg (l @ u @ r) uid"
    and "\<forall>c\<in>set l. is_space c" and "\<forall>c\<in>set r. is_space c"
    and "u \<noteq> []" and "\<not> is_space (hd u)" and "\<not> is_space (last u)"
    and "validators_url env u"
  shows "py_strip (l @ u @ r) = u \<and>
         download_video env update w =
           io_bind (reply_text env downloading_text HTML)
             (\<lambda>_. io_try (try_block env u uid (msg_chat_id msg)) (except_clauses env)) w \<and>
         take 1 (effects (download_video env update) w) = [ReplyText downloading_text HTML] \<and>
         (reply_text_raises env downloading_text = None \<longrightarrow>
            take 3 (effects (download_video env update) w) =
              [ReplyText downloading_text HTML, NewYoutubeDL (make_ydl_opts uid), ExtractInfo u False]) \<and>
         (reply_text_raises env downloading_text = None \<and> extract_info_result env u = Inr i \<longrightarrow>
            take 4 (effects (download_video env update) w) = stage_events u uid)"
proof -
  let ?w1 = "w\<lparr>trace := trace w @ [ReplyText downloading_text HTML]\<rparr>"
  let ?body = "io_try (try_block env u uid (msg_chat_id msg)) (except_clauses env)"
  have s: "py_strip (l @ u @ r) = u"
    using assms(2-6) by (rule py_strip_surrounded)
  from assms(1,7) have run: "download_video env update w =
           io_bind (reply_text env downloading_text HTML) (\<lambda>_. ?body) w"
    by (simp add: download_video_def text_message_def s io_defs del: append_assoc)
  have stop: "reply_text_raises env downloading_text \<noteq> None \<Longrightarrow>
      trace (snd (download_video env update w)) = trace w @ [ReplyText downloading_text HTML]"
    by (auto simp: run io_bind_def reply_text_run reply_result_def)
  have go: "reply_text_raises env downloading_text = None \<Longrightarrow>
      download_video env update w = ?body ?w1"
    by (simp add: run io_bind_def reply_text_run reply_result_def)
  obtain e1 where e1: "trace (snd (?body ?w1)) = trace (snd (try_block env u uid (msg_chat_id msg) ?w1)) @ e1"
    using io_try_except_trace by blast
  obtain e2 where e2: "trace (snd (try_block env u uid (msg_chat_id msg) ?w1)) =
      trace ?w1 @ [NewYoutubeDL (make_ydl_opts uid), ExtractInfo u False] @ e2"
    using try_block_begins by blast
  have three: "reply_text_raises env downloading_text = None \<Longrightarrow>
      effects (download_video env update) w =
        [ReplyText downloading_text HTML, NewYoutubeDL (make_ydl_opts uid), ExtractInfo u False]
        @ e2 @ e1"
    by (rule effects_eq) (simp add: go e1 e2)
  have four: "take 4 (effects (download_video env update) w) = stage_events u uid"
    if ok: "reply_text_raises env downloading_text = None" and ex: "extract_info_result env u = Inr i"
  proof -
    obtain e3 where e3: "trace (snd (try_block env u uid (msg_chat_id msg) ?w1)) =
        trace ?w1 @ [NewYoutubeDL (make_ydl_opts uid), ExtractInfo u False, Download [u]] @ e3"
      using try_block_downloads [OF ex] by blast
    have "effects (download_video env update) w = stage_events u uid @ e3 @ e1"
      by (rule effects_eq) (simp add: go [OF ok] e1 e3 stage_events_def)
    then show ?thesis
      by (simp add: stage_events_def)
  qed
  have one: "take 1 (effects (download_video env update) w) = [ReplyText downloading_text HTML]"
  proof (cases "reply_text_raises env downloading_text")
    case None
    then show ?thesis by (simp add: three)
  next
    case (Some e)
    then have "effects (download_video env update) w = [ReplyText downloading_text HTML]"
      by (intro effects_eq stop) simp
    then show ?thesis by simp
  qed
  from s run one three four show ?thesis
    by simp
qed

theorem url_is_stripped_witness:
  "text_message demo_update demo_message ([32] @ demo_url @ [10]) 7 \<and>
   is_space 32 \<and> is_space 10 \<and>
   demo_url \<noteq> [] \<and> \<not> is_space (hd demo_url) \<and> \<not> is_space (last demo_url) \<and>
   validators_url (demo_env demo_small) demo_url \<and>
   py_strip ([32] @ demo_url @ [10]) = demo_url \<and>
   take 4 (effects (download_video (demo_env demo_small) demo_update) demo_world) =
     stage_events demo_url 7"
proof -
  have h1: "text_message demo_update demo_message ([32] @ demo_url @ [10]) 7"
    by (simp add: text_message_def demo_update_def demo_message_def demo_raw_def)
  have h2: "\<forall>c\<in>set [32]. is_space c" and h3: "\<forall>c\<in>set [10]. is_space c"
    by (simp_all add: is_space_def)
  have h4: "demo_url \<noteq> []" and h5: "\<not> is_space (hd demo_url)" and h6: "\<not> is_space (last demo_url)"
    by (simp_all add: demo_url_def ascii_def is_space_def)
  have h7: "validators_url (demo_env demo_small) demo_url"
    by (simp add: demo_env_def)
  have ok: "reply_text_raises (demo_env demo_small) downloading_text = None"
    and ex: "extract_info_result (demo_env demo_small) demo_url = Inr demo_info"
    by (simp_all add: demo_env_def)
  from url_is_stripped [OF h1 h2 h3 h4 h5 h6 h7, of demo_world demo_info] h1 h2 h3 h4 h5 h6 h7 ok ex
  show ?thesis
    by simp
qed

end
